theory Spec2Isabelle
  imports Complex_Main "HOL-Library.Multiset"
begin

section \<open>The persistent store (server/database.py)\<close>

text \<open>
  The four SQLite tables of \<^verbatim>\<open>Database.init_database\<close>, each as the list of its rows in
  insertion (rowid) order. \<^verbatim>\<open>REAL\<close> columns and Python floats are idealised as real numbers;
  \<^verbatim>\<open>DATETIME\<close> columns are points of a discrete clock. The \<^verbatim>\<open>AUTOINCREMENT\<close> counters
  that SQLite keeps in \<^verbatim>\<open>sqlite_sequence\<close> are the \<open>_seq\<close> fields.
\<close>

record user =
  u_id :: nat
  username :: string
  email :: string
  hashed_password :: string
  balance :: real
  u_created_at :: nat

record resource =
  r_id :: nat
  symbol :: string
  r_name :: string
  current_price :: real
  volatility :: real
  last_updated :: nat

record position =
  p_id :: nat
  p_user_id :: nat
  p_resource_id :: nat
  quantity :: real
  average_price :: real
  p_created_at :: nat

record transaction =
  t_id :: nat
  t_user_id :: nat
  t_resource_id :: nat
  transaction_type :: string
  t_quantity :: real
  price :: real
  total_value :: real
  timestamp :: nat

record database =
  users :: "user list"
  users_seq :: nat
  resources :: "resource list"
  positions :: "position list"
  positions_seq :: nat
  transactions :: "transaction list"
  transactions_seq :: nat

text \<open>
  Exceptions of the Python code other than \<^verbatim>\<open>HTTPException\<close>. \<open>StorageError\<close> stands for
  any \<^verbatim>\<open>sqlite3.Error\<close> raised by the connection, with its message.
\<close>

datatype py_exception =
    IndexError
  | TypeError
  | ValueError string
  | StorageError string

fun str :: "py_exception \<Rightarrow> string" where
  "str IndexError = ''No item with that key''"
| "str TypeError = '''NoneType' object is not subscriptable''"
| "str (ValueError m) = m"
| "str (StorageError m) = m"

text \<open>
  The rowid an \<^verbatim>\<open>INTEGER PRIMARY KEY AUTOINCREMENT\<close> column gives a new row: one more than
  the largest rowid the table has ever held.
\<close>

definition autoincrement :: "nat \<Rightarrow> nat list \<Rightarrow> nat" where
  "autoincrement seq ids = Suc (fold max ids seq)"

subsection \<open>User operations\<close>

text \<open>
  \<^verbatim>\<open>create_user\<close>: the \<^verbatim>\<open>UNIQUE\<close> constraints on username and email make the insert raise
  \<^verbatim>\<open>sqlite3.IntegrityError\<close>, which the method turns into \<^verbatim>\<open>ValueError\<close>.
\<close>

definition create_user ::
  "nat \<Rightarrow> database \<Rightarrow> string \<Rightarrow> string \<Rightarrow> string \<Rightarrow> py_exception + (nat \<times> database)" where
  "create_user now db uname mail password_hash =
     (if list_ex (\<lambda>u. username u = uname \<or> email u = mail) (users db)
      then Inl (ValueError ''User with this username or email already exists'')
      else
        let user_id = autoincrement (users_seq db) (map u_id (users db));
            row = \<lparr>u_id = user_id, username = uname, email = mail,
                   hashed_password = password_hash, balance = 10000, u_created_at = now\<rparr>
        in Inr (user_id, db\<lparr>users := users db @ [row], users_seq := user_id\<rparr>))"

definition get_user_by_username :: "database \<Rightarrow> string \<Rightarrow> user option" where
  "get_user_by_username db uname = find (\<lambda>u. username u = uname) (users db)"

definition get_user_by_id :: "database \<Rightarrow> nat \<Rightarrow> user option" where
  "get_user_by_id db user_id = find (\<lambda>u. u_id u = user_id) (users db)"

definition update_user_balance :: "database \<Rightarrow> nat \<Rightarrow> real \<Rightarrow> database" where
  "update_user_balance db user_id new_balance =
     db\<lparr>users := map (\<lambda>u. if u_id u = user_id then u\<lparr>balance := new_balance\<rparr> else u) (users db)\<rparr>"

subsection \<open>Resource operations\<close>

definition get_resource_by_symbol :: "database \<Rightarrow> string \<Rightarrow> resource option" where
  "get_resource_by_symbol db resource_symbol = find (\<lambda>r. symbol r = resource_symbol) (resources db)"

definition update_resource_price :: "nat \<Rightarrow> database \<Rightarrow> nat \<Rightarrow> real \<Rightarrow> database" where
  "update_resource_price now db resource_id new_price =
     db\<lparr>resources :=
          map (\<lambda>r. if r_id r = resource_id
                   then r\<lparr>current_price := new_price, last_updated := now\<rparr> else r)
              (resources db)\<rparr>"

subsection \<open>Position operations\<close>

text \<open>
  \<^verbatim>\<open>get_position\<close> joins the position with its resource (\<^verbatim>\<open>INNER JOIN resources\<close>), so a
  position whose resource row is missing is not found. The caller only reads the
  position's own columns.
\<close>

definition get_position :: "database \<Rightarrow> nat \<Rightarrow> nat \<Rightarrow> position option" where
  "get_position db user_id resource_id =
     find (\<lambda>p. p_user_id p = user_id \<and> p_resource_id p = resource_id
                \<and> list_ex (\<lambda>r. r_id r = p_resource_id p) (resources db))
          (positions db)"

text \<open>
  A \<^verbatim>\<open>sqlite3.Row\<close> holds the columns its query selected, by name; subscripting it with
  another name raises \<^verbatim>\<open>IndexError\<close>.
\<close>

datatype sql_value = SqlInteger nat | SqlReal real

type_synonym row = "(string \<times> sql_value) list"

definition row_get :: "row \<Rightarrow> string \<Rightarrow> py_exception + real" where
  "row_get r column =
     (case map_of r column of
        None \<Rightarrow> Inl IndexError
      | Some (SqlInteger i) \<Rightarrow> Inr (real i)
      | Some (SqlReal x) \<Rightarrow> Inr x)"

text \<open>
  \<^verbatim>\<open>create_or_update_position\<close>. The existence check is
  \<^verbatim>\<open>SELECT id, quantity FROM positions WHERE user_id = ? AND resource_id = ?\<close>, so the row
  \<open>existing\<close> has the two columns \<open>id\<close> and \<open>quantity\<close>. An exception leaves the
  table as it was: the method commits only at its end.
\<close>

definition select_existing :: "database \<Rightarrow> nat \<Rightarrow> nat \<Rightarrow> row option" where
  "select_existing db user_id resource_id =
     map_option (\<lambda>p. [(''id'', SqlInteger (p_id p)), (''quantity'', SqlReal (quantity p))])
       (find (\<lambda>p. p_user_id p = user_id \<and> p_resource_id p = resource_id) (positions db))"

definition create_or_update_position ::
  "nat \<Rightarrow> database \<Rightarrow> nat \<Rightarrow> nat \<Rightarrow> real \<Rightarrow> real \<Rightarrow> py_exception + database" where
  "create_or_update_position now db user_id resource_id qty avg_price =
     (case select_existing db user_id resource_id of
        Some existing \<Rightarrow>
          (case row_get existing ''quantity'' of
             Inl e \<Rightarrow> Inl e
           | Inr existing_quantity \<Rightarrow>
               let new_quantity = existing_quantity + qty in
               if new_quantity \<le> 0
               then Inr (db\<lparr>positions :=
                          filter (\<lambda>p. \<not> (p_user_id p = user_id \<and> p_resource_id p = resource_id))
                                 (positions db)\<rparr>)
               else
                 (case row_get existing ''average_price'' of
                    Inl e \<Rightarrow> Inl e
                  | Inr existing_average_price \<Rightarrow>
                      let total_val = existing_quantity * existing_average_price + qty * avg_price;
                          new_avg_price = total_val / new_quantity
                      in Inr (db\<lparr>positions :=
                                map (\<lambda>p. if p_user_id p = user_id \<and> p_resource_id p = resource_id
                                         then p\<lparr>quantity := new_quantity,
                                                average_price := new_avg_price\<rparr>
                                         else p)
                                    (positions db)\<rparr>)))
      | None \<Rightarrow>
          let new_id = autoincrement (positions_seq db) (map p_id (positions db)) in
          Inr (db\<lparr>positions := positions db @
                     [\<lparr>p_id = new_id, p_user_id = user_id, p_resource_id = resource_id,
                       quantity = qty, average_price = avg_price, p_created_at = now\<rparr>],
                  positions_seq := new_id\<rparr>))"

subsection \<open>Transaction operations\<close>

definition create_transaction ::
  "nat \<Rightarrow> database \<Rightarrow> nat \<Rightarrow> nat \<Rightarrow> string \<Rightarrow> real \<Rightarrow> real \<Rightarrow> real \<Rightarrow> nat \<times> database" where
  "create_transaction now db user_id resource_id ttype qty prc total_val =
     (let transaction_id = autoincrement (transactions_seq db) (map t_id (transactions db)) in
      (transaction_id,
       db\<lparr>transactions := transactions db @
            [\<lparr>t_id = transaction_id, t_user_id = user_id, t_resource_id = resource_id,
              transaction_type = ttype, t_quantity = qty, price = prc, total_value = total_val,
              timestamp = now\<rparr>],
          transactions_seq := transaction_id\<rparr>))"

text \<open>
  \<^verbatim>\<open>get_user_transactions\<close> is the query
  \<^verbatim>\<open>SELECT t.*, r.symbol, r.name FROM transactions t INNER JOIN resources r
  ON t.resource_id = r.id WHERE t.user_id = ? ORDER BY t.timestamp DESC\<close>.
  \<open>select_user_transactions\<close> is its \<^verbatim>\<open>WHERE\<close> and \<^verbatim>\<open>JOIN\<close>: each transaction of the
  user, in the rowid order in which SQLite scans the table, paired with the symbol and name
  of every resource row with its resource id. \<open>order_by_timestamp_desc\<close> is the
  \<^verbatim>\<open>ORDER BY\<close>: SQLite's sorter puts the later timestamps first and keeps rows with equal
  timestamps in the order of the scan. It is the insertion sort of the library on the
  negated timestamp.
\<close>

definition select_user_transactions ::
  "database \<Rightarrow> nat \<Rightarrow> (transaction \<times> string \<times> string) list" where
  "select_user_transactions db user_id =
     concat (map (\<lambda>t. map (\<lambda>r. (t, symbol r, r_name r))
                         (filter (\<lambda>r. r_id r = t_resource_id t) (resources db)))
                 (filter (\<lambda>t. t_user_id t = user_id) (transactions db)))"

definition order_by_timestamp_desc ::
  "(transaction \<times> string \<times> string) list \<Rightarrow> (transaction \<times> string \<times> string) list" where
  "order_by_timestamp_desc rows = sort_key (\<lambda>row. - int (timestamp (fst row))) rows"

definition get_user_transactions ::
  "database \<Rightarrow> nat \<Rightarrow> (transaction \<times> string \<times> string) list" where
  "get_user_transactions db user_id =
     order_by_timestamp_desc (select_user_transactions db user_id)"

section \<open>The trade endpoint (server/app.py)\<close>

text \<open>
  The body of a trade request after \<^verbatim>\<open>float(...)\<close> has parsed the quantity, and the
  dictionary \<^verbatim>\<open>execute_trade\<close> returns.
\<close>

record trade_data =
  td_trade_type :: string
  td_resource_symbol :: string
  td_quantity :: real

record trade_response =
  message :: string
  transaction_id :: nat
  new_balance :: real

datatype http_exception = HTTPException nat string

text \<open>\<^verbatim>\<open>str.lower\<close>, on ASCII letters.\<close>

definition lower_char :: "char \<Rightarrow> char" where
  "lower_char c =
     (case map_of (zip ''ABCDEFGHIJKLMNOPQRSTUVWXYZ'' ''abcdefghijklmnopqrstuvwxyz'') c of
        None \<Rightarrow> c
      | Some d \<Rightarrow> d)"

definition lower :: "string \<Rightarrow> string" where
  "lower s = map lower_char s"

text \<open>
  Every method of \<^verbatim>\<open>Database\<close> opens its own connection, commits on its own and closes
  the connection in a \<^verbatim>\<open>finally\<close> block. The calls \<^verbatim>\<open>execute_trade\<close> makes are named by
  \<open>db_call\<close>; the environment of one request is which of them fail with a storage error
  (and the error's message), and what the clock shows when each runs. A call that fails
  has committed nothing.
\<close>

datatype db_call =
    GetUser | GetResource | GetPosition | UpdateBalance | UpdatePosition
  | CreateTransaction | GetUpdatedUser

record storage =
  raises :: "db_call \<Rightarrow> string option"
  clock :: "db_call \<Rightarrow> nat"

text \<open>
  The handler \<^verbatim>\<open>except Exception as e: raise HTTPException(status_code=500, detail=str(e))\<close>.
\<close>

definition internal_error :: "py_exception \<Rightarrow> http_exception + trade_response" where
  "internal_error e = Inl (HTTPException 500 (str e))"

text \<open>The end of \<^verbatim>\<open>execute_trade\<close>, common to both sides: record the transaction, read the user back.\<close>

definition record_trade ::
  "storage \<Rightarrow> database \<Rightarrow> nat \<Rightarrow> resource \<Rightarrow> string \<Rightarrow> real \<Rightarrow> real \<Rightarrow> real
   \<Rightarrow> (http_exception + trade_response) \<times> database" where
  "record_trade st db user_id res trade_type qty prc total_val =
     (case raises st CreateTransaction of
        Some m \<Rightarrow> (internal_error (StorageError m), db)
      | None \<Rightarrow>
          let (tid, db') = create_transaction (clock st CreateTransaction) db user_id (r_id res)
                             trade_type qty prc total_val
          in (case raises st GetUpdatedUser of
                Some m \<Rightarrow> (internal_error (StorageError m), db')
              | None \<Rightarrow>
                  (case get_user_by_id db' user_id of
                     None \<Rightarrow> (internal_error TypeError, db')
                   | Some updated_user \<Rightarrow>
                       (Inr \<lparr>message = ''Trade executed successfully'', transaction_id = tid,
                             new_balance = balance updated_user\<rparr>, db'))))"

text \<open>The branch \<^verbatim>\<open>if trade_type == 'buy'\<close>.\<close>

definition buy_branch ::
  "storage \<Rightarrow> database \<Rightarrow> nat \<Rightarrow> user option \<Rightarrow> resource \<Rightarrow> real \<Rightarrow> real \<Rightarrow> real
   \<Rightarrow> (http_exception + trade_response) \<times> database" where
  "buy_branch st db user_id user_data res qty prc total_val =
     (case user_data of
        None \<Rightarrow> (internal_error TypeError, db)
      | Some u \<Rightarrow>
          if balance u < total_val
          then (Inl (HTTPException 400 ''Insufficient balance''), db)
          else
            let updated = balance u - total_val in
            (case raises st UpdateBalance of
               Some m \<Rightarrow> (internal_error (StorageError m), db)
             | None \<Rightarrow>
                 let db1 = update_user_balance db user_id updated in
                 (case raises st UpdatePosition of
                    Some m \<Rightarrow> (internal_error (StorageError m), db1)
                  | None \<Rightarrow>
                      (case create_or_update_position (clock st UpdatePosition) db1 user_id
                              (r_id res) qty prc of
                         Inl e \<Rightarrow> (internal_error e, db1)
                       | Inr db2 \<Rightarrow>
                           record_trade st db2 user_id res ''buy'' qty prc total_val))))"

text \<open>The branch \<^verbatim>\<open>else:  # sell\<close>.\<close>

definition sell_branch ::
  "storage \<Rightarrow> database \<Rightarrow> nat \<Rightarrow> user option \<Rightarrow> resource \<Rightarrow> real \<Rightarrow> real \<Rightarrow> real
   \<Rightarrow> (http_exception + trade_response) \<times> database" where
  "sell_branch st db user_id user_data res qty prc total_val =
     (case raises st GetPosition of
        Some m \<Rightarrow> (internal_error (StorageError m), db)
      | None \<Rightarrow>
          (case get_position db user_id (r_id res) of
             None \<Rightarrow> (Inl (HTTPException 400 ''Insufficient quantity to sell''), db)
           | Some pos \<Rightarrow>
               if quantity pos < qty
               then (Inl (HTTPException 400 ''Insufficient quantity to sell''), db)
               else
                 (case user_data of
                    None \<Rightarrow> (internal_error TypeError, db)
                  | Some u \<Rightarrow>
                      let updated = balance u + total_val in
                      (case raises st UpdateBalance of
                         Some m \<Rightarrow> (internal_error (StorageError m), db)
                       | None \<Rightarrow>
                           let db1 = update_user_balance db user_id updated in
                           (case raises st UpdatePosition of
                              Some m \<Rightarrow> (internal_error (StorageError m), db1)
                            | None \<Rightarrow>
                                (case create_or_update_position (clock st UpdatePosition) db1
                                        user_id (r_id res) (- qty) prc of
                                   Inl e \<Rightarrow> (internal_error e, db1)
                                 | Inr db2 \<Rightarrow>
                                     record_trade st db2 user_id res ''sell'' qty prc
                                       total_val))))))"

text \<open>
  \<^verbatim>\<open>execute_trade\<close>, for the authenticated user \<open>user_id\<close>. The result is the response or
  the \<^verbatim>\<open>HTTPException\<close> raised, together with the store the request leaves behind.
\<close>

definition execute_trade ::
  "storage \<Rightarrow> database \<Rightarrow> nat \<Rightarrow> trade_data \<Rightarrow> (http_exception + trade_response) \<times> database" where
  "execute_trade st db user_id td =
     (let trade_type = lower (td_trade_type td);
          resource_symbol = td_resource_symbol td;
          qty = td_quantity td
      in
        if trade_type \<noteq> ''buy'' \<and> trade_type \<noteq> ''sell''
        then (Inl (HTTPException 400 (''trade_type must be 'buy' or 'sell'' @ [CHR 0x27])), db)
        else if resource_symbol = [] \<or> qty \<le> 0
        then (Inl (HTTPException 400 ''resource_symbol and quantity are required''), db)
        else
          (case raises st GetUser of
             Some m \<Rightarrow> (internal_error (StorageError m), db)
           | None \<Rightarrow>
               let user_data = get_user_by_id db user_id in
               (case raises st GetResource of
                  Some m \<Rightarrow> (internal_error (StorageError m), db)
                | None \<Rightarrow>
                    (case get_resource_by_symbol db resource_symbol of
                       None \<Rightarrow> (Inl (HTTPException 404 ''Resource not found''), db)
                     | Some res \<Rightarrow>
                         let prc = current_price res;
                             total_val = qty * prc
                         in if trade_type = ''buy''
                            then buy_branch st db user_id user_data res qty prc total_val
                            else sell_branch st db user_id user_data res qty prc total_val))))"

text \<open>A storage that never fails, with the clock reading \<open>now\<close> throughout the request.\<close>

definition reliable :: "nat \<Rightarrow> storage" where
  "reliable now = \<lparr>raises = (\<lambda>c. None), clock = (\<lambda>c. now)\<rparr>"

text \<open>
  An order passes the checks of \<^verbatim>\<open>execute_trade\<close> when it reaches the balance update:
  the arguments are accepted, the user \<open>u\<close> and the resource \<open>res\<close> are read, and the
  funds (buy) or the holding (sell) suffice. \<open>updated\<close> is the balance the order then
  writes, \<open>signed_qty\<close> the quantity it passes to the Position Book.
\<close>

definition passes_checks ::
  "storage \<Rightarrow> database \<Rightarrow> nat \<Rightarrow> trade_data \<Rightarrow> user \<Rightarrow> resource \<Rightarrow> real \<Rightarrow> real \<Rightarrow> bool" where
  "passes_checks st db user_id td u res updated signed_qty \<longleftrightarrow>
     td_resource_symbol td \<noteq> [] \<and> 0 < td_quantity td
     \<and> raises st GetUser = None \<and> raises st GetResource = None
     \<and> get_user_by_id db user_id = Some u
     \<and> get_resource_by_symbol db (td_resource_symbol td) = Some res
     \<and> raises st UpdateBalance = None
     \<and> (lower (td_trade_type td) = ''buy''
          \<and> \<not> balance u < td_quantity td * current_price res
          \<and> updated = balance u - td_quantity td * current_price res
          \<and> signed_qty = td_quantity td
        \<or> lower (td_trade_type td) = ''sell''
          \<and> raises st GetPosition = None
          \<and> (case get_position db user_id (r_id res) of
                None \<Rightarrow> False | Some pos \<Rightarrow> \<not> quantity pos < td_quantity td)
          \<and> updated = balance u + td_quantity td * current_price res
          \<and> signed_qty = - td_quantity td)"

section \<open>Sequences of calls\<close>

text \<open>
  A fill is one call \<^verbatim>\<open>create_or_update_position(user_id, resource_id, quantity, price)\<close>
  at a time of the clock. \<open>apply_fills\<close> makes the calls one after the other; a call that
  raises leaves the store as it was. \<open>fills_return\<close> says that no call of the sequence
  raises.
\<close>

record fill =
  f_user :: nat
  f_resource :: nat
  f_quantity :: real
  f_price :: real
  f_time :: nat

definition apply_fill :: "database \<Rightarrow> fill \<Rightarrow> py_exception + database" where
  "apply_fill db f =
     create_or_update_position (f_time f) db (f_user f) (f_resource f) (f_quantity f) (f_price f)"

fun apply_fills :: "database \<Rightarrow> fill list \<Rightarrow> database" where
  "apply_fills db [] = db"
| "apply_fills db (f # fs) =
     (case apply_fill db f of Inl e \<Rightarrow> apply_fills db fs | Inr db' \<Rightarrow> apply_fills db' fs)"

fun fills_return :: "database \<Rightarrow> fill list \<Rightarrow> bool" where
  "fills_return db [] = True"
| "fills_return db (f # fs) =
     (case apply_fill db f of Inl e \<Rightarrow> False | Inr db' \<Rightarrow> fills_return db' fs)"

text \<open>The position row of a pair, as the existence check of the Position Book finds it.\<close>

definition stored_position :: "database \<Rightarrow> nat \<Rightarrow> nat \<Rightarrow> position option" where
  "stored_position db user_id resource_id =
     find (\<lambda>p. p_user_id p = user_id \<and> p_resource_id p = resource_id) (positions db)"

definition stored_quantity :: "database \<Rightarrow> nat \<Rightarrow> nat \<Rightarrow> real option" where
  "stored_quantity db user_id resource_id =
     map_option quantity (stored_position db user_id resource_id)"

text \<open>The signed quantities of the fills of one pair, and their sum.\<close>

definition pair_quantities :: "nat \<Rightarrow> nat \<Rightarrow> fill list \<Rightarrow> real list" where
  "pair_quantities user_id resource_id fs =
     map f_quantity (filter (\<lambda>f. f_user f = user_id \<and> f_resource f = resource_id) fs)"

definition signed_sum :: "nat \<Rightarrow> nat \<Rightarrow> fill list \<Rightarrow> real" where
  "signed_sum user_id resource_id fs = sum_list (pair_quantities user_id resource_id fs)"

text \<open>
  A request is a trade order of a user together with the storage environment it meets.
  \<open>run_trades\<close> serves the requests one after the other and returns every outcome and the
  final store.
\<close>

type_synonym request = "storage \<times> nat \<times> trade_data"

fun run_trades ::
  "database \<Rightarrow> request list \<Rightarrow> (http_exception + trade_response) list \<times> database" where
  "run_trades db [] = ([], db)"
| "run_trades db ((st, user_id, td) # reqs) =
     (let (out, db') = execute_trade st db user_id td;
          (outs, db'') = run_trades db' reqs
      in (out # outs, db''))"

fun is_internal_error :: "http_exception + trade_response \<Rightarrow> bool" where
  "is_internal_error (Inl (HTTPException code d)) = (code = 500)"
| "is_internal_error (Inr resp) = False"

text \<open>
  The signed sum of a user's recorded transactions: a buy counts its total value
  negatively, a sell positively.
\<close>

definition signed_value :: "transaction \<Rightarrow> real" where
  "signed_value t = (if transaction_type t = ''buy'' then - total_value t else total_value t)"

definition ledger_sum :: "nat \<Rightarrow> transaction list \<Rightarrow> real" where
  "ledger_sum user_id ts = sum_list (map signed_value (filter (\<lambda>t. t_user_id t = user_id) ts))"

text \<open>
  The running computation the code performs on a balance: each recorded transaction of the
  user, in the order recorded, subtracts (buy) or adds (sell) its total value, as
  \<^verbatim>\<open>user_data['balance'] - total_value\<close> and \<^verbatim>\<open>user_data['balance'] + total_value\<close> do.
\<close>

definition apply_transaction :: "real \<Rightarrow> transaction \<Rightarrow> real" where
  "apply_transaction b t =
     (if transaction_type t = ''buy'' then b - total_value t else b + total_value t)"

definition replay :: "nat \<Rightarrow> real \<Rightarrow> transaction list \<Rightarrow> real" where
  "replay user_id b ts = foldl apply_transaction b (filter (\<lambda>t. t_user_id t = user_id) ts)"

section \<open>Example stores\<close>

text \<open>
  A store with the test user (balance 10000) and the resource ENG at price 100, and the
  same store once the user holds 10 ENG bought at 100.
\<close>

definition test_user :: user where
  "test_user = \<lparr>u_id = 1, username = ''testuser'', email = ''test@example.com'',
                 hashed_password = ''x'', balance = 10000, u_created_at = 0\<rparr>"

definition eng :: resource where
  "eng = \<lparr>r_id = 1, symbol = ''ENG'', r_name = ''Energy Units'', current_price = 100,
           volatility = 3 / 100, last_updated = 0\<rparr>"

definition fresh_db :: database where
  "fresh_db = \<lparr>users = [test_user], users_seq = 1, resources = [eng], positions = [],
                positions_seq = 0, transactions = [], transactions_seq = 0\<rparr>"

definition ten_eng :: position where
  "ten_eng = \<lparr>p_id = 1, p_user_id = 1, p_resource_id = 1, quantity = 10,
               average_price = 100, p_created_at = 5\<rparr>"

definition holding_db :: database where
  "holding_db = fresh_db\<lparr>positions := [ten_eng], positions_seq := 1\<rparr>"

definition order :: "string \<Rightarrow> real \<Rightarrow> trade_data" where
  "order side qty = \<lparr>td_trade_type = side, td_resource_symbol = ''ENG'', td_quantity = qty\<rparr>"

text \<open>A storage whose call \<open>c\<close> fails with message \<open>m\<close>, every other call succeeding.\<close>

definition failing_at :: "db_call \<Rightarrow> string \<Rightarrow> nat \<Rightarrow> storage" where
  "failing_at c m now = \<lparr>raises = (\<lambda>x. if x = c then Some m else None), clock = (\<lambda>x. now)\<rparr>"

text \<open>A fill of the test user in ENG.\<close>

definition eng_fill :: "real \<Rightarrow> real \<Rightarrow> fill" where
  "eng_fill q p = \<lparr>f_user = 1, f_resource = 1, f_quantity = q, f_price = p, f_time = 0\<rparr>"

text \<open>
  Three transactions of the test user, the first two recorded within the same second and
  the third later; and a store whose only transaction names a resource id that has no row.
\<close>

definition txn1 :: transaction where
  "txn1 = \<lparr>t_id = 1, t_user_id = 1, t_resource_id = 1, transaction_type = ''buy'',
            t_quantity = 10, price = 100, total_value = 1000, timestamp = 5\<rparr>"

definition txn2 :: transaction where
  "txn2 = \<lparr>t_id = 2, t_user_id = 1, t_resource_id = 1, transaction_type = ''sell'',
            t_quantity = 10, price = 100, total_value = 1000, timestamp = 5\<rparr>"

definition txn3 :: transaction where
  "txn3 = \<lparr>t_id = 3, t_user_id = 1, t_resource_id = 1, transaction_type = ''buy'',
            t_quantity = 2, price = 100, total_value = 200, timestamp = 7\<rparr>"

definition traded_db :: database where
  "traded_db = fresh_db\<lparr>transactions := [txn1, txn2, txn3], transactions_seq := 3\<rparr>"

definition orphan_db :: database where
  "orphan_db = fresh_db\<lparr>transactions := [txn1\<lparr>t_resource_id := 9\<rparr>], transactions_seq := 1\<rparr>"

section \<open>Auxiliary facts\<close>

lemma find_map_update:
  assumes "\<And>x. P (g x) = P x"
  shows "find P (map (\<lambda>x. if P x then g x else x) xs) = map_option g (find P xs)"
  using assms by (induction xs) auto

lemma find_map_other:
  assumes "\<And>x. Q x \<Longrightarrow> \<not> P x" and "\<And>x. Q x \<Longrightarrow> \<not> P (g x)"
  shows "find P (map (\<lambda>x. if Q x then g x else x) xs) = find P xs"
  using assms by (induction xs) auto

lemma find_snoc:
  "find P (xs @ [x]) = (case find P xs of None \<Rightarrow> (if P x then Some x else None) | Some y \<Rightarrow> Some y)"
  by (induction xs) auto

section \<open>The Position Book\<close>

text \<open>
  Claim C1. A fill into an existing position is claimed to set the average cost to
  \<open>(oldQty*oldAvg + q*p)/(oldQty+q)\<close> on a buy, and to lower the quantity with the average
  cost unchanged on a sell that leaves a positive quantity. The code does neither: whenever
  a position exists and the new quantity is positive, reading \<^verbatim>\<open>existing['average_price']\<close>
  from a row that was selected with the columns \<open>id\<close> and \<open>quantity\<close> only raises
  \<^verbatim>\<open>IndexError\<close>, before anything is written.
\<close>

theorem fill_into_existing_position_raises:
  assumes "stored_position db user_id resource_id = Some p"
      and "0 < quantity p + qty"
    shows "create_or_update_position now db user_id resource_id qty fill_price = Inl IndexError"
  using assms
  by (simp add: create_or_update_position_def select_existing_def stored_position_def
      row_get_def)

theorem fill_into_existing_position_raises_witness:
  "stored_position holding_db 1 1 = Some ten_eng \<and> 0 < quantity ten_eng + 10
   \<and> create_or_update_position 7 holding_db 1 1 10 120 = Inl IndexError"
proof -
  have found: "stored_position holding_db 1 1 = Some ten_eng"
    by (simp add: stored_position_def holding_db_def fresh_db_def ten_eng_def)
  have positive: "0 < quantity ten_eng + 10"
    by (simp add: ten_eng_def)
  from fill_into_existing_position_raises [OF found positive, of 7 120] found positive
  show ?thesis by simp
qed

text \<open>
  Claim C6. A fill with a negative quantity for a pair without a position record is claimed
  to fail with InsufficientQuantity and to create no record. In the code the Position Book
  makes no such check: the call below returns normally and stores a record with quantity
  \<open>-5\<close>.
\<close>

theorem negative_fill_opens_position:
  "stored_position fresh_db 1 1 = None
   \<and> (case create_or_update_position 3 fresh_db 1 1 (- 5) 100 of
         Inl e \<Rightarrow> False
       | Inr db' \<Rightarrow> stored_quantity db' 1 1 = Some (- 5))"
  by (simp add: create_or_update_position_def select_existing_def stored_position_def
      stored_quantity_def fresh_db_def autoincrement_def)

lemma find_conj_None: "find P xs = None \<Longrightarrow> find (\<lambda>x. P x \<and> Q x) xs = None"
  by (induction xs) (auto split: if_splits)

lemma get_position_None:
  "stored_position db user_id resource_id = None \<Longrightarrow> get_position db user_id resource_id = None"
  unfolding stored_position_def get_position_def
  using find_conj_None [of "\<lambda>p. p_user_id p = user_id \<and> p_resource_id p = resource_id"
      "positions db" "\<lambda>p. list_ex (\<lambda>r. r_id r = p_resource_id p) (resources db)"]
  by simp

text \<open>
  Claim C6, as the code has it: the check is the Trade Engine's. A sell order for a pair
  without a position record is rejected with status 400, \<open>Insufficient quantity to sell\<close>,
  before the Position Book is called; the store is unchanged, so the pair still has no
  record.
\<close>

theorem sell_without_position_rejected:
  assumes "lower (td_trade_type td) = ''sell''"
      and "td_resource_symbol td \<noteq> []" and "0 < td_quantity td"
      and "raises st GetUser = None" and "raises st GetResource = None"
      and "raises st GetPosition = None"
      and "get_resource_by_symbol db (td_resource_symbol td) = Some res"
      and "stored_position db user_id (r_id res) = None"
    shows "execute_trade st db user_id td
             = (Inl (HTTPException 400 ''Insufficient quantity to sell''), db)
           \<and> stored_position (snd (execute_trade st db user_id td)) user_id (r_id res) = None"
  using assms get_position_None [of db user_id "r_id res"]
  by (simp add: execute_trade_def sell_branch_def)

theorem sell_without_position_rejected_witness:
  "execute_trade (reliable 9) fresh_db 1 (order ''SELL'' 5)
     = (Inl (HTTPException 400 ''Insufficient quantity to sell''), fresh_db)
   \<and> stored_position (snd (execute_trade (reliable 9) fresh_db 1 (order ''SELL'' 5))) 1 1 = None"
proof -
  have "lower (td_trade_type (order ''SELL'' 5)) = ''sell''"
    by (simp add: order_def lower_def lower_char_def)
  moreover have "td_resource_symbol (order ''SELL'' 5) \<noteq> []" "0 < td_quantity (order ''SELL'' 5)"
    by (simp_all add: order_def)
  moreover have "raises (reliable 9) GetUser = None" "raises (reliable 9) GetResource = None"
    "raises (reliable 9) GetPosition = None"
    by (simp_all add: reliable_def)
  moreover have "get_resource_by_symbol fresh_db (td_resource_symbol (order ''SELL'' 5)) = Some eng"
    by (simp add: get_resource_by_symbol_def fresh_db_def eng_def order_def)
  moreover have "stored_position fresh_db 1 (r_id eng) = None"
    by (simp add: stored_position_def fresh_db_def)
  ultimately have rejected: "execute_trade (reliable 9) fresh_db 1 (order ''SELL'' 5)
             = (Inl (HTTPException 400 ''Insufficient quantity to sell''), fresh_db)
           \<and> stored_position (snd (execute_trade (reliable 9) fresh_db 1 (order ''SELL'' 5))) 1
               (r_id eng) = None"
    by (rule sell_without_position_rejected)
  have eng_id: "r_id eng = 1"
    by (simp add: eng_def)
  from rejected [unfolded eng_id] show ?thesis .
qed

text \<open>What one fill does to the record of its pair.\<close>

lemma apply_fill_absent:
  assumes "stored_position db (f_user f) (f_resource f) = None"
  shows "\<exists>db'. apply_fill db f = Inr db'
               \<and> stored_quantity db' (f_user f) (f_resource f) = Some (f_quantity f)"
  using assms
  by (simp add: apply_fill_def create_or_update_position_def stored_position_def
      stored_quantity_def select_existing_def find_snoc Let_def)

lemma apply_fill_present:
  assumes "stored_position db (f_user f) (f_resource f) = Some p"
  shows "apply_fill db f =
           (if quantity p + f_quantity f \<le> 0
            then Inr (db\<lparr>positions :=
                          filter (\<lambda>p. \<not> (p_user_id p = f_user f \<and> p_resource_id p = f_resource f))
                                 (positions db)\<rparr>)
            else Inl IndexError)"
  using assms
  by (simp add: apply_fill_def create_or_update_position_def stored_position_def
      select_existing_def row_get_def)

text \<open>
  Claim C5. After any sequence of fills on an empty book the stored quantity of a pair is
  claimed to be the signed sum of its fills. The code loses the second fill: on an empty
  book, a fill followed by a fill of the same pair that leaves a positive quantity stores
  the first quantity alone, because the second call raises the \<^verbatim>\<open>IndexError\<close> of claim C1
  and writes nothing.
\<close>

theorem second_fill_is_lost:
  assumes "positions db = []"
      and "f_user g = f_user f" and "f_resource g = f_resource f"
      and "0 < f_quantity f + f_quantity g"
    shows "\<not> fills_return db [f, g]
           \<and> stored_quantity (apply_fills db [f, g]) (f_user f) (f_resource f)
               = Some (f_quantity f)
           \<and> signed_sum (f_user f) (f_resource f) [f, g] = f_quantity f + f_quantity g"
proof -
  from assms(1) have "stored_position db (f_user f) (f_resource f) = None"
    by (simp add: stored_position_def)
  then obtain db1 where first: "apply_fill db f = Inr db1"
    and held: "stored_quantity db1 (f_user f) (f_resource f) = Some (f_quantity f)"
    using apply_fill_absent by blast
  from held obtain p where p: "stored_position db1 (f_user g) (f_resource g) = Some p"
    "quantity p = f_quantity f"
    using assms(2,3) by (auto simp: stored_quantity_def)
  from apply_fill_present [OF p(1)] p(2) assms(4)
  have second: "apply_fill db1 g = Inl IndexError"
    by simp
  from first second held show ?thesis
    using assms(2,3) by (simp add: signed_sum_def pair_quantities_def)
qed

theorem second_fill_is_lost_witness:
  "\<not> fills_return fresh_db [eng_fill 5 100, eng_fill 3 120]
   \<and> stored_quantity (apply_fills fresh_db [eng_fill 5 100, eng_fill 3 120]) 1 1 = Some 5
   \<and> signed_sum 1 1 [eng_fill 5 100, eng_fill 3 120] = 8"
proof -
  have empty: "positions fresh_db = []"
    by (simp add: fresh_db_def)
  have same: "f_user (eng_fill 3 120) = f_user (eng_fill 5 100)"
    "f_resource (eng_fill 3 120) = f_resource (eng_fill 5 100)"
    by (simp_all add: eng_fill_def)
  have positive: "0 < f_quantity (eng_fill 5 100) + f_quantity (eng_fill 3 120)"
    by (simp add: eng_fill_def)
  from second_fill_is_lost [OF empty same positive] show ?thesis
    by (simp add: eng_fill_def)
qed

section \<open>The Trade Engine: rejected orders\<close>

text \<open>
  Claim C3. A buy order whose total value (quantity times the current price) exceeds the
  user's balance is rejected with status 400, \<open>Insufficient balance\<close>, and the store is
  returned as it was: same balance, same positions, same transactions.
\<close>

theorem buy_over_balance_rejected:
  assumes "lower (td_trade_type td) = ''buy''"
      and "td_resource_symbol td \<noteq> []" and "0 < td_quantity td"
      and "raises st GetUser = None" and "raises st GetResource = None"
      and "get_user_by_id db user_id = Some u"
      and "get_resource_by_symbol db (td_resource_symbol td) = Some res"
      and "balance u < td_quantity td * current_price res"
    shows "execute_trade st db user_id td = (Inl (HTTPException 400 ''Insufficient balance''), db)"
  using assms by (simp add: execute_trade_def buy_branch_def)

theorem buy_over_balance_rejected_witness:
  "execute_trade (reliable 9) fresh_db 1 (order ''buy'' 101)
     = (Inl (HTTPException 400 ''Insufficient balance''), fresh_db)"
proof -
  have "lower (td_trade_type (order ''buy'' 101)) = ''buy''"
    by (simp add: order_def lower_def lower_char_def)
  moreover have "td_resource_symbol (order ''buy'' 101) \<noteq> []" "0 < td_quantity (order ''buy'' 101)"
    by (simp_all add: order_def)
  moreover have "raises (reliable 9) GetUser = None" "raises (reliable 9) GetResource = None"
    by (simp_all add: reliable_def)
  moreover have "get_user_by_id fresh_db 1 = Some test_user"
    by (simp add: get_user_by_id_def fresh_db_def test_user_def)
  moreover have "get_resource_by_symbol fresh_db (td_resource_symbol (order ''buy'' 101)) = Some eng"
    by (simp add: get_resource_by_symbol_def fresh_db_def eng_def order_def)
  moreover have "balance test_user < td_quantity (order ''buy'' 101) * current_price eng"
    by (simp add: test_user_def order_def eng_def)
  ultimately show ?thesis
    by (rule buy_over_balance_rejected)
qed

text \<open>
  Claim C4. A sell order whose quantity exceeds the quantity the user holds of the resource,
  or for which the user has no position at all, is rejected with status 400,
  \<open>Insufficient quantity to sell\<close>, and the store is returned as it was.
\<close>

theorem sell_over_holdings_rejected:
  assumes "lower (td_trade_type td) = ''sell''"
      and "td_resource_symbol td \<noteq> []" and "0 < td_quantity td"
      and "raises st GetUser = None" and "raises st GetResource = None"
      and "raises st GetPosition = None"
      and "get_resource_by_symbol db (td_resource_symbol td) = Some res"
      and "case get_position db user_id (r_id res) of
             None \<Rightarrow> True | Some pos \<Rightarrow> quantity pos < td_quantity td"
    shows "execute_trade st db user_id td
             = (Inl (HTTPException 400 ''Insufficient quantity to sell''), db)"
  using assms by (simp add: execute_trade_def sell_branch_def split: option.splits)

theorem sell_over_holdings_rejected_witness:
  "execute_trade (reliable 9) holding_db 1 (order ''sell'' 11)
     = (Inl (HTTPException 400 ''Insufficient quantity to sell''), holding_db)"
proof -
  have "lower (td_trade_type (order ''sell'' 11)) = ''sell''"
    by (simp add: order_def lower_def lower_char_def)
  moreover have "td_resource_symbol (order ''sell'' 11) \<noteq> []" "0 < td_quantity (order ''sell'' 11)"
    by (simp_all add: order_def)
  moreover have "raises (reliable 9) GetUser = None" "raises (reliable 9) GetResource = None"
    "raises (reliable 9) GetPosition = None"
    by (simp_all add: reliable_def)
  moreover have "get_resource_by_symbol holding_db (td_resource_symbol (order ''sell'' 11)) = Some eng"
    by (simp add: get_resource_by_symbol_def holding_db_def fresh_db_def eng_def order_def)
  moreover have "case get_position holding_db 1 (r_id eng) of
                   None \<Rightarrow> True | Some pos \<Rightarrow> quantity pos < td_quantity (order ''sell'' 11)"
    by (simp add: get_position_def holding_db_def fresh_db_def eng_def ten_eng_def order_def)
  ultimately show ?thesis
    by (rule sell_over_holdings_rejected)
qed

section \<open>The Trade Engine: the steps of an order\<close>

text \<open>
  An order that passes its checks writes the balance, then calls the Position Book, then
  records the transaction; an order that does not is turned away with the store untouched.
\<close>

lemma execute_trade_checked:
  assumes "passes_checks st db user_id td u res updated signed_qty"
  shows "execute_trade st db user_id td =
           (case raises st UpdatePosition of
              Some m \<Rightarrow> (internal_error (StorageError m), update_user_balance db user_id updated)
            | None \<Rightarrow>
                (case create_or_update_position (clock st UpdatePosition)
                        (update_user_balance db user_id updated) user_id (r_id res) signed_qty
                        (current_price res) of
                   Inl e \<Rightarrow> (internal_error e, update_user_balance db user_id updated)
                 | Inr db2 \<Rightarrow>
                     record_trade st db2 user_id res (lower (td_trade_type td)) (td_quantity td)
                       (current_price res) (td_quantity td * current_price res)))"
proof -
  from assms have common: "td_resource_symbol td \<noteq> []" "0 < td_quantity td"
    "raises st GetUser = None" "raises st GetResource = None"
    "get_user_by_id db user_id = Some u"
    "get_resource_by_symbol db (td_resource_symbol td) = Some res"
    "raises st UpdateBalance = None"
    by (simp_all add: passes_checks_def)
  from assms consider
    (buy) "lower (td_trade_type td) = ''buy''"
      "\<not> balance u < td_quantity td * current_price res"
      "updated = balance u - td_quantity td * current_price res" "signed_qty = td_quantity td"
  | (sell) pos where "lower (td_trade_type td) = ''sell''" "raises st GetPosition = None"
      "get_position db user_id (r_id res) = Some pos" "\<not> quantity pos < td_quantity td"
      "updated = balance u + td_quantity td * current_price res" "signed_qty = - td_quantity td"
    by (auto simp: passes_checks_def split: option.splits)
  then show ?thesis
  proof cases
    case buy
    with common show ?thesis
      by (auto simp: execute_trade_def buy_branch_def Let_def split: option.split sum.split)
  next
    case sell
    with common show ?thesis
      by (auto simp: execute_trade_def sell_branch_def Let_def split: option.split sum.split)
  qed
qed

lemma record_trade_error:
  assumes "fst (record_trade st db user_id res trade_type qty prc total_val) = Inl (HTTPException code d)"
  shows "code = 500"
  using assms
  by (auto simp: record_trade_def internal_error_def Let_def
      split: option.splits prod.splits)

lemma buy_branch_rejection:
  assumes "fst (buy_branch st db user_id user_data res qty prc total_val) = Inl (HTTPException code d)"
      and "code \<noteq> 500"
    shows "snd (buy_branch st db user_id user_data res qty prc total_val) = db"
  using assms
  by (auto simp: buy_branch_def internal_error_def Let_def
      dest: record_trade_error split: option.splits if_splits sum.splits)

lemma sell_branch_rejection:
  assumes "fst (sell_branch st db user_id user_data res qty prc total_val) = Inl (HTTPException code d)"
      and "code \<noteq> 500"
    shows "snd (sell_branch st db user_id user_data res qty prc total_val) = db"
  using assms
  by (auto simp: sell_branch_def internal_error_def Let_def
      dest: record_trade_error split: option.splits if_splits sum.splits)

lemma rejection_changes_nothing:
  assumes "fst (execute_trade st db user_id td) = Inl (HTTPException code d)" and "code \<noteq> 500"
  shows "snd (execute_trade st db user_id td) = db"
  using assms
  by (auto simp: execute_trade_def internal_error_def Let_def
      dest: buy_branch_rejection sell_branch_rejection split: option.splits if_splits)

lemma success_passes_checks:
  assumes "fst (execute_trade st db user_id td) = Inr resp"
  shows "\<exists>u res updated signed_qty. passes_checks st db user_id td u res updated signed_qty"
proof (cases "lower (td_trade_type td) = ''buy''")
  case True
  with assms show ?thesis
    by (auto simp: passes_checks_def execute_trade_def buy_branch_def
        internal_error_def Let_def split: option.splits if_splits)
next
  case False
  with assms show ?thesis
    by (auto simp: passes_checks_def execute_trade_def sell_branch_def
        internal_error_def Let_def split: option.splits if_splits)
qed


lemma create_or_update_position_frame:
  assumes "create_or_update_position now db user_id resource_id qty prc = Inr db'"
  shows "users db' = users db \<and> transactions db' = transactions db \<and> resources db' = resources db"
  using assms
  by (auto simp: create_or_update_position_def Let_def
      split: option.splits sum.splits if_splits)

lemma update_user_balance_frame:
  "transactions (update_user_balance db user_id b) = transactions db
   \<and> positions (update_user_balance db user_id b) = positions db
   \<and> resources (update_user_balance db user_id b) = resources db"
  by (simp add: update_user_balance_def)

lemma get_user_after_update:
  "get_user_by_id (update_user_balance db user_id b) w =
     (if w = user_id then map_option (\<lambda>u. u\<lparr>balance := b\<rparr>) (get_user_by_id db user_id)
      else get_user_by_id db w)"
proof (cases "w = user_id")
  case True
  have "find (\<lambda>u. u_id u = user_id)
          (map (\<lambda>u. if u_id u = user_id then u\<lparr>balance := b\<rparr> else u) (users db))
        = map_option (\<lambda>u. u\<lparr>balance := b\<rparr>) (find (\<lambda>u. u_id u = user_id) (users db))"
    by (rule find_map_update) simp
  with True show ?thesis
    by (simp add: get_user_by_id_def update_user_balance_def)
next
  case False
  have "find (\<lambda>u. u_id u = w)
          (map (\<lambda>u. if u_id u = user_id then u\<lparr>balance := b\<rparr> else u) (users db))
        = find (\<lambda>u. u_id u = w) (users db)"
    using False by (intro find_map_other) auto
  with False show ?thesis
    by (simp add: get_user_by_id_def update_user_balance_def)
qed

lemma create_transaction_frame:
  assumes "create_transaction now db user_id resource_id ttype qty prc total_val = (tid, db')"
  shows "users db' = users db \<and> positions db' = positions db
         \<and> (\<exists>t. transactions db' = transactions db @ [t] \<and> t_id t = tid \<and> t_user_id t = user_id
                  \<and> t_resource_id t = resource_id \<and> transaction_type t = ttype
                  \<and> t_quantity t = qty \<and> price t = prc \<and> total_value t = total_val
                  \<and> timestamp t = now)"
  using assms by (auto simp: create_transaction_def Let_def)

lemma record_trade_success:
  assumes "record_trade st db user_id res trade_type qty prc total_val = (Inr resp, db')"
  shows "raises st CreateTransaction = None
         \<and> create_transaction (clock st CreateTransaction) db user_id (r_id res) trade_type qty prc
             total_val = (transaction_id resp, db')
         \<and> (\<exists>u'. get_user_by_id db' user_id = Some u' \<and> new_balance resp = balance u')"
  using assms
  by (auto simp: record_trade_def internal_error_def Let_def split: option.splits prod.splits)

lemma execute_trade_success:
  assumes "execute_trade st db user_id td = (Inr resp, db')"
  shows "\<exists>u res updated signed_qty db2.
           passes_checks st db user_id td u res updated signed_qty
           \<and> raises st UpdatePosition = None
           \<and> create_or_update_position (clock st UpdatePosition)
                (update_user_balance db user_id updated) user_id (r_id res) signed_qty
                (current_price res) = Inr db2
           \<and> raises st CreateTransaction = None
           \<and> create_transaction (clock st CreateTransaction) db2 user_id (r_id res)
                (lower (td_trade_type td)) (td_quantity td) (current_price res)
                (td_quantity td * current_price res) = (transaction_id resp, db')
           \<and> (\<exists>u'. get_user_by_id db' user_id = Some u' \<and> new_balance resp = balance u')"
proof -
  from assms have "fst (execute_trade st db user_id td) = Inr resp" by simp
  from success_passes_checks [OF this] obtain u res updated signed_qty
    where checked: "passes_checks st db user_id td u res updated signed_qty" by blast
  note shape = execute_trade_checked [OF checked]
  from shape assms have up: "raises st UpdatePosition = None"
    by (auto simp: internal_error_def split: option.splits)
  with shape assms obtain db2 where
    pos: "create_or_update_position (clock st UpdatePosition)
            (update_user_balance db user_id updated) user_id (r_id res) signed_qty
            (current_price res) = Inr db2"
    and rec: "record_trade st db2 user_id res (lower (td_trade_type td)) (td_quantity td)
               (current_price res) (td_quantity td * current_price res) = (Inr resp, db')"
    by (auto simp: internal_error_def split: sum.splits)
  from record_trade_success [OF rec] checked up pos show ?thesis by blast
qed


lemma executed_trade_balance:
  assumes run: "execute_trade st db user_id td = (Inr resp, db')"
      and user: "get_user_by_id db user_id = Some u"
      and res: "get_resource_by_symbol db (td_resource_symbol td) = Some res"
    shows "\<exists>u' t. get_user_by_id db' user_id = Some u'
             \<and> balance u' = (if lower (td_trade_type td) = ''buy''
                             then balance u - td_quantity td * current_price res
                             else balance u + td_quantity td * current_price res)
             \<and> new_balance resp = balance u'
             \<and> transactions db' = transactions db @ [t]
             \<and> transaction_id resp = t_id t \<and> t_user_id t = user_id
             \<and> transaction_type t = lower (td_trade_type td)
             \<and> total_value t = td_quantity td * current_price res"
proof -
  from execute_trade_success [OF run] obtain u0 res0 updated signed_qty db2 u'
    where checked: "passes_checks st db user_id td u0 res0 updated signed_qty"
      and pos: "create_or_update_position (clock st UpdatePosition)
                  (update_user_balance db user_id updated) user_id (r_id res0) signed_qty
                  (current_price res0) = Inr db2"
      and txn: "create_transaction (clock st CreateTransaction) db2 user_id (r_id res0)
                  (lower (td_trade_type td)) (td_quantity td) (current_price res0)
                  (td_quantity td * current_price res0) = (transaction_id resp, db')"
      and readback: "get_user_by_id db' user_id = Some u'" "new_balance resp = balance u'"
    by blast
  from checked user res have same: "u0 = u" "res0 = res"
    by (simp_all add: passes_checks_def)
  from checked same have updated:
    "updated = (if lower (td_trade_type td) = ''buy''
                then balance u - td_quantity td * current_price res
                else balance u + td_quantity td * current_price res)"
    by (auto simp: passes_checks_def)
  from create_transaction_frame [OF txn] obtain t where
    t: "users db' = users db2" "transactions db' = transactions db2 @ [t]"
       "t_id t = transaction_id resp" "t_user_id t = user_id"
       "transaction_type t = lower (td_trade_type td)"
       "total_value t = td_quantity td * current_price res0"
    by blast
  from create_or_update_position_frame [OF pos]
  have mid: "users db2 = users (update_user_balance db user_id updated)"
    "transactions db2 = transactions db"
    by (simp_all add: update_user_balance_frame)
  have "get_user_by_id db' user_id = get_user_by_id (update_user_balance db user_id updated) user_id"
    using t(1) mid(1) by (simp add: get_user_by_id_def)
  with readback(1) user have "u' = u\<lparr>balance := updated\<rparr>"
    by (simp add: get_user_after_update)
  then have "balance u' = updated" by simp
  with readback t mid same updated show ?thesis by auto
qed

lemma replay_append:
  "replay w b (ts @ ts') = replay w (replay w b ts) ts'"
  by (simp add: replay_def)

lemma trade_extends_replay:
  assumes run: "execute_trade st db user_id td = (out, db')"
      and ok: "\<not> is_internal_error out"
      and user: "get_user_by_id db w = Some u0"
    shows "\<exists>u1 new. get_user_by_id db' w = Some u1
             \<and> transactions db' = transactions db @ new
             \<and> balance u1 = replay w (balance u0) new"
proof (cases out)
  case (Inl e)
  obtain code d where e: "e = HTTPException code d" by (cases e)
  with Inl ok have "code \<noteq> 500" by simp
  with rejection_changes_nothing [of st db user_id td code d] run Inl e have "db' = db"
    by simp
  with user have "get_user_by_id db' w = Some u0 \<and> transactions db' = transactions db @ []
                  \<and> balance u0 = replay w (balance u0) []"
    by (simp add: replay_def)
  then show ?thesis by blast
next
  case (Inr resp)
  with run have run': "execute_trade st db user_id td = (Inr resp, db')" by simp
  from execute_trade_success [OF run'] obtain u res updated signed_qty db2
    where checked: "passes_checks st db user_id td u res updated signed_qty"
      and pos: "create_or_update_position (clock st UpdatePosition)
                  (update_user_balance db user_id updated) user_id (r_id res) signed_qty
                  (current_price res) = Inr db2"
      and txn: "create_transaction (clock st CreateTransaction) db2 user_id (r_id res)
                  (lower (td_trade_type td)) (td_quantity td) (current_price res)
                  (td_quantity td * current_price res) = (transaction_id resp, db')"
    by blast
  from checked have u: "get_user_by_id db user_id = Some u"
    by (simp add: passes_checks_def)
  from create_transaction_frame [OF txn] obtain t where
    t: "users db' = users db2" "transactions db' = transactions db2 @ [t]"
       "t_user_id t = user_id" "transaction_type t = lower (td_trade_type td)"
       "total_value t = td_quantity td * current_price res"
    by blast
  from create_or_update_position_frame [OF pos]
  have mid: "users db2 = users (update_user_balance db user_id updated)"
    "transactions db2 = transactions db"
    by (simp_all add: update_user_balance_frame)
  have lookup: "get_user_by_id db' w = get_user_by_id (update_user_balance db user_id updated) w"
    using t(1) mid(1) by (simp add: get_user_by_id_def)
  from t(2) mid(2) have log: "transactions db' = transactions db @ [t]" by simp
  show ?thesis
  proof (cases "w = user_id")
    case False
    with lookup user have "get_user_by_id db' w = Some u0"
      by (simp add: get_user_after_update)
    moreover from False t(3) have "balance u0 = replay w (balance u0) [t]"
      by (simp add: replay_def)
    ultimately show ?thesis using log by blast
  next
    case True
    with user u have "u0 = u" by simp
    from True lookup u have found: "get_user_by_id db' w = Some (u\<lparr>balance := updated\<rparr>)"
      by (simp add: get_user_after_update)
    from checked t(4,5) have "updated = apply_transaction (balance u) t"
      by (auto simp: passes_checks_def apply_transaction_def)
    with True t(3) \<open>u0 = u\<close> have "balance (u\<lparr>balance := updated\<rparr>) = replay w (balance u0) [t]"
      by (simp add: replay_def)
    with found log show ?thesis by blast
  qed
qed

lemma run_trades_replay:
  assumes "run_trades db reqs = (outs, db')"
      and "\<not> list_ex is_internal_error outs"
      and "get_user_by_id db w = Some u0"
    shows "\<exists>u1 new. get_user_by_id db' w = Some u1
             \<and> transactions db' = transactions db @ new
             \<and> balance u1 = replay w (balance u0) new"
  using assms
proof (induction reqs arbitrary: db outs u0 db')
  case Nil
  then have "get_user_by_id db' w = Some u0 \<and> transactions db' = transactions db @ []
             \<and> balance u0 = replay w (balance u0) []"
    by (simp add: replay_def)
  then show ?case by blast
next
  case (Cons req reqs)
  obtain st user_id td where req: "req = (st, user_id, td)" by (cases req)
  obtain out db1 where first: "execute_trade st db user_id td = (out, db1)"
    by (cases "execute_trade st db user_id td")
  obtain outs1 db2 where rest: "run_trades db1 reqs = (outs1, db2)"
    by (cases "run_trades db1 reqs")
  from Cons.prems(1) req first rest have outs: "outs = out # outs1" and db': "db' = db2"
    by simp_all
  from Cons.prems(2) outs have ok: "\<not> is_internal_error out" "\<not> list_ex is_internal_error outs1"
    by simp_all
  from trade_extends_replay [OF first ok(1) Cons.prems(3)] obtain u1 new1 where
    u1: "get_user_by_id db1 w = Some u1" "transactions db1 = transactions db @ new1"
    "balance u1 = replay w (balance u0) new1"
    by blast
  from Cons.IH [OF rest ok(2) u1(1)] obtain u2 new2 where
    u2: "get_user_by_id db2 w = Some u2" "transactions db2 = transactions db1 @ new2"
    "balance u2 = replay w (balance u1) new2"
    by blast
  from u1 u2 db' have "get_user_by_id db' w = Some u2
      \<and> transactions db' = transactions db @ (new1 @ new2)
      \<and> balance u2 = replay w (balance u0) (new1 @ new2)"
    by (simp add: replay_append)
  then show ?case by blast
qed

lemmas trade_eval = execute_trade_def buy_branch_def sell_branch_def record_trade_def
  internal_error_def create_transaction_def create_or_update_position_def select_existing_def
  row_get_def update_user_balance_def get_user_by_id_def get_resource_by_symbol_def
  get_position_def autoincrement_def lower_def lower_char_def order_def reliable_def
  failing_at_def fresh_db_def holding_db_def test_user_def eng_def ten_eng_def Let_def

text \<open>
  Claim C2. An order is claimed to be all-or-nothing: if a step fails, balance, position and
  transaction log are as before the attempt. In the code every step commits on its own and
  the handler of \<^verbatim>\<open>execute_trade\<close> only reports the failure. A storage failure at the
  position step of a first buy leaves the balance at 9000 instead of 10000, with no
  position and no transaction; so does the \<^verbatim>\<open>IndexError\<close> of claim C1 on a buy into an
  existing position, with no storage failure at all.
\<close>

theorem balance_debited_without_trade:
  "balance test_user = 10000
   \<and> execute_trade (failing_at UpdatePosition ''disk I/O error'' 9) fresh_db 1 (order ''buy'' 10)
       = (Inl (HTTPException 500 ''disk I/O error''),
          fresh_db\<lparr>users := [test_user\<lparr>balance := 9000\<rparr>]\<rparr>)
   \<and> execute_trade (reliable 9) holding_db 1 (order ''buy'' 10)
       = (Inl (HTTPException 500 ''No item with that key''),
          holding_db\<lparr>users := [test_user\<lparr>balance := 9000\<rparr>]\<rparr>)"
  by (simp add: trade_eval)

text \<open>
  Claim C2, as the code has it: an order rejected with a status other than 500 leaves the
  store as it was; an order that succeeds has passed its checks and has applied the balance
  update, the Position Book call and the transaction append; and nothing is rolled back:
  when the storage fails at the position step of an order that passed its checks, the
  request ends with status 500 and the store keeps the updated balance, and when it fails
  at the transaction append, the store keeps the updated balance and the updated position.
\<close>

theorem trade_steps_commit_separately:
  "(fst (execute_trade st db user_id td) = Inl (HTTPException code d) \<and> code \<noteq> 500
      \<longrightarrow> snd (execute_trade st db user_id td) = db)
   \<and> (fst (execute_trade st db user_id td) = Inr resp
      \<longrightarrow> (\<exists>u res updated signed_qty db2.
            passes_checks st db user_id td u res updated signed_qty
            \<and> create_or_update_position (clock st UpdatePosition)
                (update_user_balance db user_id updated) user_id (r_id res) signed_qty
                (current_price res) = Inr db2
            \<and> snd (execute_trade st db user_id td)
                = snd (create_transaction (clock st CreateTransaction) db2 user_id (r_id res)
                        (lower (td_trade_type td)) (td_quantity td) (current_price res)
                        (td_quantity td * current_price res))))
   \<and> (passes_checks st db user_id td u res updated signed_qty
       \<and> raises st UpdatePosition = Some m
      \<longrightarrow> execute_trade st db user_id td
            = (Inl (HTTPException 500 m), update_user_balance db user_id updated))
   \<and> (passes_checks st db user_id td u res updated signed_qty
       \<and> raises st UpdatePosition = None
       \<and> create_or_update_position (clock st UpdatePosition)
            (update_user_balance db user_id updated) user_id (r_id res) signed_qty
            (current_price res) = Inr db2
       \<and> raises st CreateTransaction = Some m
      \<longrightarrow> execute_trade st db user_id td = (Inl (HTTPException 500 m), db2))"
proof (intro conjI impI)
  assume "fst (execute_trade st db user_id td) = Inl (HTTPException code d) \<and> code \<noteq> 500"
  then show "snd (execute_trade st db user_id td) = db"
    using rejection_changes_nothing by blast
next
  assume "fst (execute_trade st db user_id td) = Inr resp"
  then have "execute_trade st db user_id td = (Inr resp, snd (execute_trade st db user_id td))"
    by (simp add: prod_eq_iff)
  from execute_trade_success [OF this]
  show "\<exists>u res updated signed_qty db2.
          passes_checks st db user_id td u res updated signed_qty
          \<and> create_or_update_position (clock st UpdatePosition)
              (update_user_balance db user_id updated) user_id (r_id res) signed_qty
              (current_price res) = Inr db2
          \<and> snd (execute_trade st db user_id td)
              = snd (create_transaction (clock st CreateTransaction) db2 user_id (r_id res)
                      (lower (td_trade_type td)) (td_quantity td) (current_price res)
                      (td_quantity td * current_price res))"
    by (metis snd_conv)
next
  assume "passes_checks st db user_id td u res updated signed_qty
          \<and> raises st UpdatePosition = Some m"
  then show "execute_trade st db user_id td
               = (Inl (HTTPException 500 m), update_user_balance db user_id updated)"
    using execute_trade_checked [of st db user_id td u res updated signed_qty]
    by (simp add: internal_error_def)
next
  assume "passes_checks st db user_id td u res updated signed_qty
          \<and> raises st UpdatePosition = None
          \<and> create_or_update_position (clock st UpdatePosition)
               (update_user_balance db user_id updated) user_id (r_id res) signed_qty
               (current_price res) = Inr db2
          \<and> raises st CreateTransaction = Some m"
  then show "execute_trade st db user_id td = (Inl (HTTPException 500 m), db2)"
    using execute_trade_checked [of st db user_id td u res updated signed_qty]
    by (simp add: internal_error_def record_trade_def)
qed

theorem trade_steps_commit_separately_witness:
  "passes_checks (failing_at UpdatePosition ''disk I/O error'' 9) fresh_db 1 (order ''buy'' 10)
     test_user eng 9000 10
   \<and> execute_trade (failing_at UpdatePosition ''disk I/O error'' 9) fresh_db 1 (order ''buy'' 10)
       = (Inl (HTTPException 500 ''disk I/O error''), update_user_balance fresh_db 1 9000)"
proof -
  let ?st = "failing_at UpdatePosition ''disk I/O error'' 9"
  have checked: "passes_checks ?st fresh_db 1 (order ''buy'' 10) test_user eng 9000 10"
    by (simp add: passes_checks_def trade_eval)
  have fails: "raises ?st UpdatePosition = Some ''disk I/O error''"
    by (simp add: failing_at_def)
  from trade_steps_commit_separately
    [of ?st fresh_db 1 "order ''buy'' 10" _ _ _ test_user eng 9000 10 "''disk I/O error''"]
    checked fails
  show ?thesis by blast
qed

text \<open>
  Claim C7. After any sequence of trades the balance is claimed to be the initial balance
  plus the signed sum of the recorded transactions. An order that fails after its balance
  update breaks this: after the storage failure above the balance is 9000 with an empty
  log, and after two buys of 10 ENG, the second of which raises, it is 8000 with one
  transaction of 1000 recorded.
\<close>

theorem balance_departs_from_ledger:
  "map_option balance (get_user_by_id fresh_db 1) = Some 10000
   \<and> ledger_sum 1 (transactions fresh_db) = 0
   \<and> map_option balance (get_user_by_id (snd (run_trades fresh_db
        [(failing_at UpdatePosition ''disk I/O error'' 9, 1, order ''buy'' 10)])) 1) = Some 9000
   \<and> ledger_sum 1 (transactions (snd (run_trades fresh_db
        [(failing_at UpdatePosition ''disk I/O error'' 9, 1, order ''buy'' 10)]))) = 0
   \<and> map_option balance (get_user_by_id (snd (run_trades fresh_db
        [(reliable 5, 1, order ''buy'' 10), (reliable 6, 1, order ''buy'' 10)])) 1) = Some 8000
   \<and> ledger_sum 1 (transactions (snd (run_trades fresh_db
        [(reliable 5, 1, order ''buy'' 10), (reliable 6, 1, order ''buy'' 10)]))) = - 1000"
  by (simp add: trade_eval ledger_sum_def signed_value_def)

text \<open>
  Claim C7, as the code has it: an executed buy lowers and an executed sell raises the
  balance by the total value (quantity times the current price), the response carries that
  new balance and the id of the one transaction appended; and after any sequence of orders
  none of which ends in an internal error (status 500), the balance of every user is the
  initial balance with the total values of the transactions recorded for the user since
  subtracted (buys) or added (sells) one after the other, in the order recorded. This is
  the computation the code itself performs on the balance; no law of arithmetic is used to
  regroup it into a sum.
\<close>

theorem balance_follows_executed_trades:
  "(execute_trade st db user_id td = (Inr resp, db')
    \<and> get_user_by_id db user_id = Some u
    \<and> get_resource_by_symbol db (td_resource_symbol td) = Some res
    \<longrightarrow> (\<exists>u' t. get_user_by_id db' user_id = Some u'
             \<and> balance u' = (if lower (td_trade_type td) = ''buy''
                             then balance u - td_quantity td * current_price res
                             else balance u + td_quantity td * current_price res)
             \<and> new_balance resp = balance u'
             \<and> transactions db' = transactions db @ [t]
             \<and> transaction_id resp = t_id t \<and> t_user_id t = user_id
             \<and> transaction_type t = lower (td_trade_type td)
             \<and> total_value t = td_quantity td * current_price res))
   \<and> (run_trades db reqs = (outs, db'')
      \<and> \<not> list_ex is_internal_error outs
      \<and> get_user_by_id db w = Some u0
      \<longrightarrow> (\<exists>u1 new. get_user_by_id db'' w = Some u1
             \<and> transactions db'' = transactions db @ new
             \<and> balance u1 = replay w (balance u0) new))"
proof (intro conjI impI)
  assume "execute_trade st db user_id td = (Inr resp, db')
          \<and> get_user_by_id db user_id = Some u
          \<and> get_resource_by_symbol db (td_resource_symbol td) = Some res"
  then show "\<exists>u' t. get_user_by_id db' user_id = Some u'
             \<and> balance u' = (if lower (td_trade_type td) = ''buy''
                             then balance u - td_quantity td * current_price res
                             else balance u + td_quantity td * current_price res)
             \<and> new_balance resp = balance u'
             \<and> transactions db' = transactions db @ [t]
             \<and> transaction_id resp = t_id t \<and> t_user_id t = user_id
             \<and> transaction_type t = lower (td_trade_type td)
             \<and> total_value t = td_quantity td * current_price res"
    using executed_trade_balance [of st db user_id td resp db' u res] by blast
next
  assume "run_trades db reqs = (outs, db'')
          \<and> \<not> list_ex is_internal_error outs
          \<and> get_user_by_id db w = Some u0"
  then show "\<exists>u1 new. get_user_by_id db'' w = Some u1
             \<and> transactions db'' = transactions db @ new
             \<and> balance u1 = replay w (balance u0) new"
    using run_trades_replay [of db reqs outs db'' w u0] by blast
qed

theorem balance_follows_executed_trades_witness:
  "(\<exists>resp db'. execute_trade (reliable 5) fresh_db 1 (order ''buy'' 10) = (Inr resp, db')
       \<and> (\<exists>u' t. get_user_by_id db' 1 = Some u' \<and> balance u' = 9000
                \<and> new_balance resp = 9000
                \<and> transactions db' = transactions fresh_db @ [t]
                \<and> transaction_id resp = t_id t \<and> total_value t = 1000))
   \<and> \<not> list_ex is_internal_error (fst (run_trades fresh_db
          [(reliable 5, 1, order ''buy'' 10), (reliable 6, 1, order ''sell'' 10)]))
   \<and> (\<exists>u1 new. get_user_by_id (snd (run_trades fresh_db
                  [(reliable 5, 1, order ''buy'' 10), (reliable 6, 1, order ''sell'' 10)])) 1
                 = Some u1
           \<and> transactions (snd (run_trades fresh_db
                  [(reliable 5, 1, order ''buy'' 10), (reliable 6, 1, order ''sell'' 10)]))
               = transactions fresh_db @ new
           \<and> balance u1 = replay 1 (balance test_user) new)"
proof -
  let ?buy = "order ''buy'' 10"
  let ?reqs = "[(reliable 5, 1, order ''buy'' 10), (reliable 6, 1, order ''sell'' 10)]"
  have user: "get_user_by_id fresh_db 1 = Some test_user"
    by (simp add: get_user_by_id_def fresh_db_def test_user_def)
  have res: "get_resource_by_symbol fresh_db (td_resource_symbol ?buy) = Some eng"
    by (simp add: get_resource_by_symbol_def fresh_db_def eng_def order_def)
  have "\<exists>resp. fst (execute_trade (reliable 5) fresh_db 1 ?buy) = Inr resp"
    by (simp add: trade_eval)
  then obtain resp db' where
    bought: "execute_trade (reliable 5) fresh_db 1 ?buy = (Inr resp, db')"
    by (metis prod.collapse)
  have side: "lower (td_trade_type ?buy) = ''buy''"
    "td_quantity ?buy * current_price eng = 1000" "balance test_user = 10000"
    by (simp_all add: order_def lower_def lower_char_def eng_def test_user_def)
  from balance_follows_executed_trades
    [of "reliable 5" fresh_db 1 ?buy resp db' test_user eng] bought user res
  obtain u' t where "get_user_by_id db' 1 = Some u'"
    "balance u' = (if lower (td_trade_type ?buy) = ''buy''
                   then balance test_user - td_quantity ?buy * current_price eng
                   else balance test_user + td_quantity ?buy * current_price eng)"
    "new_balance resp = balance u'" "transactions db' = transactions fresh_db @ [t]"
    "transaction_id resp = t_id t" "total_value t = td_quantity ?buy * current_price eng"
    by blast
  with side have first: "\<exists>u' t. get_user_by_id db' 1 = Some u' \<and> balance u' = 9000
                \<and> new_balance resp = 9000
                \<and> transactions db' = transactions fresh_db @ [t]
                \<and> transaction_id resp = t_id t \<and> total_value t = 1000"
    by simp
  have run: "run_trades fresh_db ?reqs
               = (fst (run_trades fresh_db ?reqs), snd (run_trades fresh_db ?reqs))"
    by simp
  have fine: "\<not> list_ex is_internal_error (fst (run_trades fresh_db ?reqs))"
    by (simp add: trade_eval)
  from balance_follows_executed_trades
    [of _ fresh_db _ _ _ _ _ _ ?reqs "fst (run_trades fresh_db ?reqs)"
        "snd (run_trades fresh_db ?reqs)" 1 test_user]
    run fine user
  have "\<exists>u1 new. get_user_by_id (snd (run_trades fresh_db ?reqs)) 1 = Some u1
           \<and> transactions (snd (run_trades fresh_db ?reqs)) = transactions fresh_db @ new
           \<and> balance u1 = replay 1 (balance test_user) new"
    by blast
  with bought first fine show ?thesis by blast
qed

section \<open>Registration\<close>

lemma fold_max_ge: "(i::nat) \<in> set ids \<Longrightarrow> i \<le> fold max ids s"
proof (induction ids arbitrary: s)
  case Nil
  then show ?case by simp
next
  case (Cons a ids)
  have mono: "\<And>t. t \<le> fold max ids t"
  proof -
    fix t show "t \<le> fold max ids t"
      by (induction ids arbitrary: t) (auto intro: order_trans [OF max.cobounded2])
  qed
  from Cons show ?case
    by (auto intro: order_trans [OF max.cobounded1 mono])
qed

lemma autoincrement_fresh: "i \<in> set ids \<Longrightarrow> i \<noteq> autoincrement seq ids"
  using fold_max_ge [of i ids seq] by (simp add: autoincrement_def)

lemma find_fresh_snoc:
  assumes "\<And>y. y \<in> set xs \<Longrightarrow> \<not> P y" and "P x"
  shows "find P (xs @ [x]) = Some x"
  using assms by (induction xs) auto

text \<open>
  Claim C10. When \<^verbatim>\<open>create_user\<close> succeeds, the user found under the returned id has the
  balance 10000, whatever the caller passed: the balance is no argument of the call.
\<close>

theorem registration_balance:
  assumes "create_user now db uname mail password_hash = Inr (user_id, db')"
  shows "\<exists>u. get_user_by_id db' user_id = Some u \<and> balance u = 10000
              \<and> username u = uname \<and> email u = mail"
proof -
  let ?uid = "autoincrement (users_seq db) (map u_id (users db))"
  let ?row = "\<lparr>u_id = ?uid, username = uname, email = mail,
               hashed_password = password_hash, balance = 10000, u_created_at = now\<rparr>"
  from assms have uid: "user_id = ?uid"
    and db': "db' = db\<lparr>users := users db @ [?row], users_seq := ?uid\<rparr>"
    by (auto simp: create_user_def Let_def split: if_splits)
  have "find (\<lambda>u. u_id u = ?uid) (users db @ [?row]) = Some ?row"
  proof (rule find_fresh_snoc)
    fix y assume "y \<in> set (users db)"
    then have "u_id y \<in> set (map u_id (users db))" by simp
    from autoincrement_fresh [OF this] show "u_id y \<noteq> ?uid" .
  qed simp
  then have "get_user_by_id db' user_id = Some ?row"
    by (simp add: get_user_by_id_def db' uid)
  then show ?thesis by simp
qed

theorem registration_balance_witness:
  "\<exists>db'. create_user 3 fresh_db ''alice'' ''alice@example.com'' ''h'' = Inr (2, db')
         \<and> (\<exists>u. get_user_by_id db' 2 = Some u \<and> balance u = 10000
                  \<and> username u = ''alice'' \<and> email u = ''alice@example.com'')"
proof -
  have "\<exists>db'. create_user 3 fresh_db ''alice'' ''alice@example.com'' ''h'' = Inr (2, db')"
    by (simp add: create_user_def fresh_db_def test_user_def autoincrement_def)
  then obtain db' where
    created: "create_user 3 fresh_db ''alice'' ''alice@example.com'' ''h'' = Inr (2, db')" ..
  from registration_balance [OF created] created show ?thesis by blast
qed

section \<open>The Price Store\<close>

text \<open>
  Claim C8. A price that is zero or negative is claimed to be refused with InvalidArgument,
  the stored price staying as it was. \<^verbatim>\<open>update_resource_price\<close> has no such check: here
  the price of ENG goes from 100 to \<open>-5\<close>.
\<close>

theorem nonpositive_price_accepted:
  "map current_price (resources fresh_db) = [100]
   \<and> map current_price (resources (update_resource_price 9 fresh_db 1 (- 5))) = [- 5]"
  by (simp add: update_resource_price_def fresh_db_def eng_def)

text \<open>
  Claim C8, as the code has it: for every new price, of either sign, the call sets the
  price of each resource row with the given id to the new price and its last-updated time
  to the time of the call, and changes nothing else: the other columns of the row, the
  other resource rows, and the users, positions and transactions stay as they were.
\<close>

theorem update_resource_price_effect:
  "users (update_resource_price now db resource_id new_price) = users db
   \<and> positions (update_resource_price now db resource_id new_price) = positions db
   \<and> transactions (update_resource_price now db resource_id new_price) = transactions db
   \<and> length (resources (update_resource_price now db resource_id new_price))
       = length (resources db)
   \<and> (\<forall>i < length (resources db).
         resources (update_resource_price now db resource_id new_price) ! i
           = (if r_id (resources db ! i) = resource_id
              then (resources db ! i)\<lparr>current_price := new_price, last_updated := now\<rparr>
              else resources db ! i))"
  by (simp add: update_resource_price_def)

theorem update_resource_price_effect_witness:
  "resources (update_resource_price 9 fresh_db 1 250) ! 0
     = eng\<lparr>current_price := 250, last_updated := 9\<rparr>"
  using update_resource_price_effect [of 9 fresh_db 1 250]
  by (simp add: fresh_db_def eng_def)

section \<open>The Transaction Log\<close>

lemma filter_unique_key:
  assumes "distinct (map f xs)"
  shows "filter (\<lambda>x. f x = k) xs = (case find (\<lambda>x. f x = k) xs of None \<Rightarrow> [] | Some x \<Rightarrow> [x])"
  using assms
proof (induction xs)
  case Nil
  then show ?case by simp
next
  case (Cons a xs)
  show ?case
  proof (cases "f a = k")
    case True
    from Cons.prems have "f a \<notin> f ` set xs" by simp
    with True have "\<And>x. x \<in> set xs \<Longrightarrow> f x \<noteq> k"
      by (metis imageI)
    then have "filter (\<lambda>x. f x = k) xs = []" by (simp add: filter_empty_conv)
    with True show ?thesis by simp
  next
    case False
    with Cons show ?thesis by simp
  qed
qed

lemma find_list_ex: "(find P xs = None) = (\<not> list_ex P xs)"
  by (induction xs) auto

lemma joined_transactions:
  assumes "distinct (map r_id rs)"
  shows "map fst (concat (map (\<lambda>t. map (\<lambda>r. (t, symbol r, r_name r))
                                     (filter (\<lambda>r. r_id r = t_resource_id t) rs)) ts))
           = filter (\<lambda>t. list_ex (\<lambda>r. r_id r = t_resource_id t) rs) ts"
proof (induction ts)
  case Nil
  then show ?case by simp
next
  case (Cons t ts)
  have "map fst (map (\<lambda>r. (t, symbol r, r_name r)) (filter (\<lambda>r. r_id r = t_resource_id t) rs))
          = (if list_ex (\<lambda>r. r_id r = t_resource_id t) rs then [t] else [])"
    using filter_unique_key [OF assms, of "t_resource_id t"]
      find_list_ex [of "\<lambda>r. r_id r = t_resource_id t" rs]
    by (auto split: option.splits)
  with Cons show ?case by simp
qed

lemma selected_transactions:
  assumes "distinct (map r_id (resources db))"
  shows "map fst (select_user_transactions db user_id)
           = filter (\<lambda>t. t_user_id t = user_id
                          \<and> list_ex (\<lambda>r. r_id r = t_resource_id t) (resources db))
                    (transactions db)"
  unfolding select_user_transactions_def joined_transactions [OF assms]
  by (simp add: conj_commute)

lemma selected_rows_joined:
  assumes "(t, s, n) \<in> set (select_user_transactions db user_id)"
  shows "\<exists>r \<in> set (resources db). r_id r = t_resource_id t \<and> s = symbol r \<and> n = r_name r"
  using assms by (auto simp: select_user_transactions_def)

text \<open>The three properties of the ordering: same rows, later first, ties as scanned.\<close>

lemma order_by_same_rows: "mset (order_by_timestamp_desc rows) = mset rows"
  by (simp add: order_by_timestamp_desc_def)

lemma order_by_descending:
  "sorted_wrt (\<lambda>a b. timestamp (fst b) \<le> timestamp (fst a)) (order_by_timestamp_desc rows)"
proof -
  have "sorted (map (\<lambda>row. - int (timestamp (fst row))) (order_by_timestamp_desc rows))"
    unfolding order_by_timestamp_desc_def by (rule sorted_sort_key)
  then show ?thesis
    by (simp add: sorted_wrt_map)
qed

lemma order_by_keeps_ties:
  "filter (\<lambda>row. timestamp (fst row) = k) (order_by_timestamp_desc rows)
     = filter (\<lambda>row. timestamp (fst row) = k) rows"
proof -
  have "filter (\<lambda>row. - int (timestamp (fst row)) = - int k) (order_by_timestamp_desc rows)
          = filter (\<lambda>row. - int (timestamp (fst row)) = - int k) rows"
    unfolding order_by_timestamp_desc_def by (rule sort_key_stable)
  then show ?thesis by simp
qed

lemmas listing_eval = get_user_transactions_def order_by_timestamp_desc_def
  select_user_transactions_def traded_db_def orphan_db_def fresh_db_def eng_def
  txn1_def txn2_def txn3_def

text \<open>
  Claim C9. The listing is claimed to hold exactly the user's transactions, for every state
  of the transaction log. The query joins each transaction with its resource, so a
  transaction whose resource id has no row is left out: here the user has one transaction
  and the listing is empty.
\<close>

theorem orphan_transaction_not_listed:
  "map t_user_id (transactions orphan_db) = [1] \<and> get_user_transactions orphan_db 1 = []"
  by (simp add: listing_eval)

text \<open>
  Claim C9, as the code has it: when the resource ids are unique, the listing holds exactly
  the user's transactions whose resource exists, each once and with the symbol and name of
  that resource; the timestamps never increase along it; and the transactions that share a
  timestamp come in the order in which they were inserted.
\<close>

theorem user_transactions_listing:
  assumes "distinct (map r_id (resources db))"
  shows "mset (map fst (get_user_transactions db user_id))
           = mset (filter (\<lambda>t. t_user_id t = user_id
                                \<and> list_ex (\<lambda>r. r_id r = t_resource_id t) (resources db))
                          (transactions db))
         \<and> sorted_wrt (\<lambda>a b. timestamp b \<le> timestamp a)
             (map fst (get_user_transactions db user_id))
         \<and> filter (\<lambda>t. timestamp t = k) (map fst (get_user_transactions db user_id))
             = filter (\<lambda>t. timestamp t = k)
                 (filter (\<lambda>t. t_user_id t = user_id
                               \<and> list_ex (\<lambda>r. r_id r = t_resource_id t) (resources db))
                         (transactions db))
         \<and> (\<forall>(t, s, n) \<in> set (get_user_transactions db user_id).
               \<exists>r \<in> set (resources db).
                 r_id r = t_resource_id t \<and> s = symbol r \<and> n = r_name r)"
proof (intro conjI)
  let ?rows = "select_user_transactions db user_id"
  have "mset (map fst (order_by_timestamp_desc ?rows)) = mset (map fst ?rows)"
    using order_by_same_rows [of ?rows] by (metis mset_map)
  then show "mset (map fst (get_user_transactions db user_id))
               = mset (filter (\<lambda>t. t_user_id t = user_id
                                    \<and> list_ex (\<lambda>r. r_id r = t_resource_id t) (resources db))
                              (transactions db))"
    by (simp add: get_user_transactions_def selected_transactions [OF assms])
  show "sorted_wrt (\<lambda>a b. timestamp b \<le> timestamp a)
          (map fst (get_user_transactions db user_id))"
    using order_by_descending [of ?rows]
    by (simp add: get_user_transactions_def sorted_wrt_map)
  have "filter (\<lambda>t. timestamp t = k) (map fst (order_by_timestamp_desc ?rows))
          = map fst (filter (\<lambda>row. timestamp (fst row) = k) (order_by_timestamp_desc ?rows))"
    by (simp add: filter_map comp_def)
  also have "\<dots> = map fst (filter (\<lambda>row. timestamp (fst row) = k) ?rows)"
    by (simp add: order_by_keeps_ties)
  also have "\<dots> = filter (\<lambda>t. timestamp t = k) (map fst ?rows)"
    by (simp add: filter_map comp_def)
  finally show "filter (\<lambda>t. timestamp t = k) (map fst (get_user_transactions db user_id))
                  = filter (\<lambda>t. timestamp t = k)
                      (filter (\<lambda>t. t_user_id t = user_id
                                    \<and> list_ex (\<lambda>r. r_id r = t_resource_id t) (resources db))
                              (transactions db))"
    by (simp add: get_user_transactions_def selected_transactions [OF assms])
  have "set (get_user_transactions db user_id) = set ?rows"
    using order_by_same_rows [of ?rows] unfolding get_user_transactions_def
    by (rule mset_eq_setD)
  then show "\<forall>(t, s, n) \<in> set (get_user_transactions db user_id).
               \<exists>r \<in> set (resources db). r_id r = t_resource_id t \<and> s = symbol r \<and> n = r_name r"
    using selected_rows_joined by blast
qed

theorem user_transactions_listing_witness:
  "distinct (map r_id (resources traded_db))
   \<and> transactions traded_db = [txn1, txn2, txn3]
   \<and> get_user_transactions traded_db 1
       = [(txn3, ''ENG'', ''Energy Units''), (txn1, ''ENG'', ''Energy Units''),
          (txn2, ''ENG'', ''Energy Units'')]
   \<and> filter (\<lambda>t. timestamp t = 5) (map fst (get_user_transactions traded_db 1))
       = filter (\<lambda>t. timestamp t = 5)
           (filter (\<lambda>t. t_user_id t = 1
                         \<and> list_ex (\<lambda>r. r_id r = t_resource_id t) (resources traded_db))
                   (transactions traded_db))"
proof -
  have unique: "distinct (map r_id (resources traded_db))"
    by (simp add: traded_db_def fresh_db_def)
  have listed: "get_user_transactions traded_db 1
                  = [(txn3, ''ENG'', ''Energy Units''), (txn1, ''ENG'', ''Energy Units''),
                     (txn2, ''ENG'', ''Energy Units'')]"
    by (simp add: listing_eval)
  have log: "transactions traded_db = [txn1, txn2, txn3]"
    by (simp add: traded_db_def)
  from user_transactions_listing [OF unique, of 1 5] unique listed log show ?thesis
    by blast
qed

end
